theory Spec2Isabelle
  imports Main "HOL-Library.Word" "HOL-Library.Multiset"
begin

section \<open>MorphProxy: a rotating reverse proxy\<close>

text \<open>
  A shallow embedding of the Go sources: the header-rule engine, the request handler of a
  proxy worker with its mux, gzip middleware and reverse proxy hooks (\<open>utils.go\<close>), the
  proxy registry with its rotation, and the mux and handler of the public entry point.

  Log lines and Prometheus observations are left out, except the status label that the
  worker's handler records. Whatever the Go code obtains from outside the process (the
  Redis store, the detection service, the file \<open>403.html\<close>, the backend) is an explicit
  argument. Functions of the Go standard library whose results the code only passes on
  (gzip, regular expressions, URL parsing, the routing of \<open>http.ServeMux\<close>) are the
  fields of a record \<open>lib\<close>, so that every theorem holds for each implementation of
  them.
\<close>

subsection \<open>Values, failures and the library interface\<close>

datatype failure =
    StoreUnavailable
  | KeyMissing
  | ReadFailure
  | DetectionFailure
  | FileFailure
  | UpstreamFailure
  | ParseFailure
  | Panic string

text \<open>\<open>net/url.URL\<close>, with the three fields the code reads and writes.\<close>

record url =
  URLScheme :: string
  URLHost :: string
  URLPath :: string

text \<open>
  \<open>textproto.CanonicalMIMEHeaderKey\<close>: a name made of valid header field bytes only gets
  an upper-case first letter and an upper-case letter after each hyphen, and lower case
  everywhere else; any other name is returned as it is.
\<close>

definition validHeaderFieldByte :: "char \<Rightarrow> bool" where
  "validHeaderFieldByte c =
     (c \<in> set (''abcdefghijklmnopqrstuvwxyzABCDEFGHIJKLMNOPQRSTUVWXYZ0123456789''
                @ ''!#$%&*+-.^_|~'' @ [CHR 0x27, CHR 0x60]))"

definition toUpper :: "char \<Rightarrow> char" where
  "toUpper c =
     (case map_of (zip ''abcdefghijklmnopqrstuvwxyz'' ''ABCDEFGHIJKLMNOPQRSTUVWXYZ'') c of
        Some u \<Rightarrow> u | None \<Rightarrow> c)"

definition toLower :: "char \<Rightarrow> char" where
  "toLower c =
     (case map_of (zip ''ABCDEFGHIJKLMNOPQRSTUVWXYZ'' ''abcdefghijklmnopqrstuvwxyz'') c of
        Some l \<Rightarrow> l | None \<Rightarrow> c)"

fun canonicalLetters :: "bool \<Rightarrow> string \<Rightarrow> string" where
  "canonicalLetters upper [] = []"
| "canonicalLetters upper (c # cs) =
     (let c' = (if upper then toUpper c else toLower c)
      in c' # canonicalLetters (c' = CHR ''-'') cs)"

definition CanonicalMIMEHeaderKey :: "string \<Rightarrow> string" where
  "CanonicalMIMEHeaderKey s =
     (if list_all validHeaderFieldByte s then canonicalLetters True s else s)"

text \<open>
  \<open>http.Header\<close> is \<open>map[string][]string\<close>. Its methods \<open>Get\<close>, \<open>Set\<close>, \<open>Add\<close> and
  \<open>Del\<close> canonicalise the name they are given and use the result as the key.
\<close>

type_synonym header = "string \<rightharpoonup> string list"

definition Header_Get :: "header \<Rightarrow> string \<Rightarrow> string" where
  "Header_Get h k = (case h (CanonicalMIMEHeaderKey k) of Some (v # vs) \<Rightarrow> v | _ \<Rightarrow> [])"

definition Header_Set :: "header \<Rightarrow> string \<Rightarrow> string \<Rightarrow> header" where
  "Header_Set h k v = h(CanonicalMIMEHeaderKey k \<mapsto> [v])"

definition Header_Add :: "header \<Rightarrow> string \<Rightarrow> string \<Rightarrow> header" where
  "Header_Add h k v =
     h(CanonicalMIMEHeaderKey k \<mapsto>
         (case h (CanonicalMIMEHeaderKey k) of None \<Rightarrow> [] | Some vs \<Rightarrow> vs) @ [v])"

definition Header_Del :: "header \<Rightarrow> string \<Rightarrow> header" where
  "Header_Del h k = h(CanonicalMIMEHeaderKey k := None)"

text \<open>\<open>strings.Contains\<close> and \<open>strings.HasPrefix\<close>.\<close>

definition HasPrefix :: "string \<Rightarrow> string \<Rightarrow> bool" where
  "HasPrefix s p = (take (length p) s = p)"

fun Contains :: "string \<Rightarrow> string \<Rightarrow> bool" where
  "Contains [] sub = (sub = [])"
| "Contains (c # cs) sub = (HasPrefix (c # cs) sub \<or> Contains cs sub)"

subsection \<open>Requests and responses\<close>

text \<open>
  \<open>RemoteAddr\<close> is the address of the peer as \<open>net/http\<close> sets it, \<open>IP:port\<close>.
  \<open>ReqBody\<close> is what reading the body to its end gives (\<open>io.ReadAll\<close>): the bytes, or
  the read error. \<open>response\<close> is the \<open>*http.Response\<close> of the backend; \<open>written\<close>
  is what a handler has put on its \<open>http.ResponseWriter\<close>.
\<close>

record request =
  Method :: string
  URL :: url
  Host :: string
  RequestURI :: string
  RemoteAddr :: string
  ReqHeader :: header
  ReqBody :: "failure + string"

record response =
  StatusCode :: nat
  RespHeader :: header
  RespBody :: "failure + string"
  ContentLength :: int

record written =
  status :: nat
  headers :: header
  body :: string

text \<open>
  A handler that panics writes no complete response: \<open>net/http\<close> recovers the panic and
  closes the connection.
\<close>

datatype reply = Written written | Aborted failure

text \<open>
  What an \<open>http.ServeMux\<close> does with a request: it answers it itself, without running
  any handler (a redirect to the clean path for a path that is not clean, 400 for the
  request URI \<open>*\<close>), or it runs the handler registered under one of its patterns. Its
  own answer is written on the writer it is given, hence a function of the writer's
  header.
\<close>

datatype route = Answered "header \<Rightarrow> written" | Dispatched string

text \<open>
  The library functions taken as parameters:
  \<^item> \<open>gzip b\<close>: the bytes a \<open>gzip.Writer\<close> has produced once \<open>b\<close> was written and the
    writer closed;
  \<^item> \<open>regexCompiles re\<close>: whether \<open>regexp.Compile re\<close> succeeds
    (\<open>regexp.MustCompile\<close> panics when it does not);
  \<^item> \<open>ReplaceAllString re src repl\<close>: the method of the compiled expression;
  \<^item> \<open>urlParse\<close>: \<open>url.Parse\<close>, \<open>None\<close> for an error (the returned pointer is nil);
  \<^item> \<open>urlString\<close>: \<open>(*URL).String\<close>;
  \<^item> \<open>joinURLPath\<close>: the path computed by the default director of
    \<open>httputil.NewSingleHostReverseProxy\<close>;
  \<^item> \<open>redirectLocation r target\<close>: the \<open>Location\<close> value \<open>http.Redirect\<close> derives from
    the target it is given (it escapes non-ASCII bytes and resolves a target without a
    scheme against the path of \<open>r\<close>);
  \<^item> \<open>redirectNote target code\<close>: the short HTML body \<open>http.Redirect\<close> writes for a GET;
  \<^item> \<open>urlRequestURI\<close>: \<open>(*URL).RequestURI\<close>, the path and query of a URL;
  \<^item> \<open>serveMux patterns r\<close>: the routing of an \<open>http.ServeMux\<close> on which handlers were
    registered under \<open>patterns\<close>.
\<close>

record lib =
  gzip :: "string \<Rightarrow> string"
  regexCompiles :: "string \<Rightarrow> bool"
  ReplaceAllString :: "string \<Rightarrow> string \<Rightarrow> string \<Rightarrow> string"
  urlParse :: "string \<Rightarrow> url option"
  urlString :: "url \<Rightarrow> string"
  joinURLPath :: "url \<Rightarrow> url \<Rightarrow> string"
  redirectLocation :: "request \<Rightarrow> string \<Rightarrow> string"
  redirectNote :: "string \<Rightarrow> nat \<Rightarrow> string"
  urlRequestURI :: "url \<Rightarrow> string"
  serveMux :: "string list \<Rightarrow> request \<Rightarrow> route"

subsection \<open>The header-rule engine\<close>

record HeaderRule =
  Action :: string
  Header :: string
  Value :: string
  Regex :: string
  Replacement :: string

text \<open>One iteration of the loop of \<open>applyHeaderRules\<close>: the \<open>switch\<close> on the action.\<close>

definition applyHeaderRule :: "lib \<Rightarrow> HeaderRule \<Rightarrow> response \<Rightarrow> failure + response" where
  "applyHeaderRule L rule resp =
     (if Action rule = ''add-header'' then
        Inr (resp\<lparr>RespHeader := Header_Add (RespHeader resp) (Header rule) (Value rule)\<rparr>)
      else if Action rule = ''set-header'' then
        Inr (resp\<lparr>RespHeader := Header_Set (RespHeader resp) (Header rule) (Value rule)\<rparr>)
      else if Action rule = ''del-header'' then
        Inr (resp\<lparr>RespHeader := Header_Del (RespHeader resp) (Header rule)\<rparr>)
      else if Action rule = ''replace-header'' then
        (if Regex rule \<noteq> [] then
           (let v = Header_Get (RespHeader resp) (Header rule) in
            if v \<noteq> [] then
              (if regexCompiles L (Regex rule) then
                 Inr (resp\<lparr>RespHeader := Header_Set (RespHeader resp) (Header rule)
                        (ReplaceAllString L (Regex rule) v (Replacement rule))\<rparr>)
               else Inl (Panic ''regexp: Compile''))
            else Inr resp)
         else Inr resp)
      else Inr resp)"

fun applyHeaderRules :: "lib \<Rightarrow> HeaderRule list \<Rightarrow> response \<Rightarrow> failure + response" where
  "applyHeaderRules L [] resp = Inr resp"
| "applyHeaderRules L (rule # rules) resp =
     (case applyHeaderRule L rule resp of
        Inl e \<Rightarrow> Inl e
      | Inr resp' \<Rightarrow> applyHeaderRules L rules resp')"

subsection \<open>The coordination store\<close>

text \<open>
  The Redis server as the code sees it through \<open>go-redis\<close>: reachable or not, the string
  keys, and the payloads published per channel. \<open>Get\<close> of a key that is not set returns
  the error \<open>redis.Nil\<close>.
\<close>

record store =
  up :: bool
  kv :: "string \<rightharpoonup> string"
  published :: "(string \<times> string) list"

definition redisGet :: "store \<Rightarrow> string \<Rightarrow> failure + string" where
  "redisGet st key =
     (if \<not> up st then Inl StoreUnavailable
      else case kv st key of None \<Rightarrow> Inl KeyMissing | Some v \<Rightarrow> Inr v)"

definition redisSet :: "store \<Rightarrow> string \<Rightarrow> string \<Rightarrow> failure + store" where
  "redisSet st key v =
     (if \<not> up st then Inl StoreUnavailable else Inr (st\<lparr>kv := (kv st)(key \<mapsto> v)\<rparr>))"

definition redisPublish :: "store \<Rightarrow> string \<Rightarrow> string \<Rightarrow> failure + store" where
  "redisPublish st channel payload =
     (if \<not> up st then Inl StoreUnavailable
      else Inr (st\<lparr>published := published st @ [(channel, payload)]\<rparr>))"

subsection \<open>A proxy worker: what \<open>StartProxyServer\<close> sets up\<close>

text \<open>
  The arguments of \<open>StartProxyServer\<close> and the global \<open>headerRules\<close>; \<open>queueEnabled\<close>
  is \<open>queue != nil\<close> and \<open>target\<close> the parsed \<open>backendURL\<close>.
\<close>

record worker =
  proxyID :: string
  target :: url
  queueEnabled :: bool
  enableDetection :: bool
  headerRules :: "HeaderRule list"

text \<open>
  Values of type \<open>interface{}\<close> that the code compares with a string or asserts to be
  one: a string, or anything else.
\<close>

datatype jvalue = JString string | JOther

type_synonym message = "string \<rightharpoonup> jvalue"

text \<open>
  What one request meets outside the process: the store, the answer of
  \<open>sendToDetectionService\<close> (a function of this repository that is not among the
  sources, taken as a parameter of the URI and the body sent), the result of
  \<open>os.ReadFile("403.html")\<close>, the result of \<open>XReadGroup\<close> (the messages of the first
  stream, or the error, which a timeout is too), and the backend's answer to the
  forwarded request.
\<close>

record world =
  redis :: store
  sendToDetectionService :: "string \<Rightarrow> string \<Rightarrow> failure + (string \<rightharpoonup> jvalue)"
  file403 :: "failure + string"
  XReadGroup :: "failure + message list"
  backend :: "request \<Rightarrow> failure + response"

text \<open>\<open>http.Error\<close> and \<open>http.Redirect\<close> on a writer whose header map is \<open>h\<close>.\<close>

definition httpError :: "header \<Rightarrow> string \<Rightarrow> nat \<Rightarrow> written" where
  "httpError h msg code =
     \<lparr>status = code,
      headers = Header_Set (Header_Set h ''Content-Type'' ''text/plain; charset=utf-8'')
                  ''X-Content-Type-Options'' ''nosniff'',
      body = msg @ [CHR 0x0A]\<rparr>"

definition httpRedirect :: "lib \<Rightarrow> header \<Rightarrow> request \<Rightarrow> string \<Rightarrow> nat \<Rightarrow> written" where
  "httpRedirect L h r dest code =
     (let hadCT = (h ''Content-Type'' \<noteq> None);
          h1 = Header_Set h ''Location'' (redirectLocation L r dest);
          h2 = (if \<not> hadCT \<and> (Method r = ''GET'' \<or> Method r = ''HEAD'')
                then Header_Set h1 ''Content-Type'' ''text/html; charset=utf-8'' else h1)
      in \<lparr>status = code, headers = h2,
          body = (if \<not> hadCT \<and> Method r = ''GET'' then redirectNote L dest code else [])\<rparr>)"

subsubsection \<open>The director\<close>

text \<open>
  The default director rewrites scheme, host and path of the outgoing request to the
  backend's. With a queue, the worker's director adds \<open>X-Proxy-ID\<close> and applies the
  directives of the messages read. \<open>url.Parse\<close> of a \<open>redirect_url\<close> may fail; its error is
  dropped and the nil result dereferenced.
\<close>

definition originalDirector :: "lib \<Rightarrow> url \<Rightarrow> request \<Rightarrow> request" where
  "originalDirector L tgt req =
     req\<lparr>URL := (URL req)\<lparr>URLScheme := URLScheme tgt, URLHost := URLHost tgt,
                            URLPath := joinURLPath L tgt (URL req)\<rparr>\<rparr>"

definition applyMessage :: "lib \<Rightarrow> request \<Rightarrow> message \<Rightarrow> failure + request" where
  "applyMessage L req msg =
     (let req1 = (if msg ''block'' = Some (JString ''true'')
                  then req\<lparr>URL := (URL req)\<lparr>URLHost := []\<rparr>\<rparr> else req)
      in case msg ''redirect_url'' of
           Some (JString newURL) \<Rightarrow>
             (case urlParse L newURL of
                None \<Rightarrow> Inl (Panic ''nil pointer dereference'')
              | Some parsedNewURL \<Rightarrow>
                  Inr (req1\<lparr>URL := (URL req1)\<lparr>URLScheme := URLScheme parsedNewURL,
                                               URLHost := URLHost parsedNewURL,
                                               URLPath := URLPath parsedNewURL\<rparr>\<rparr>))
         | _ \<Rightarrow> Inr req1)"

fun applyMessages :: "lib \<Rightarrow> request \<Rightarrow> message list \<Rightarrow> failure + request" where
  "applyMessages L req [] = Inr req"
| "applyMessages L req (msg # msgs) =
     (case applyMessage L req msg of
        Inl e \<Rightarrow> Inl e
      | Inr req' \<Rightarrow> applyMessages L req' msgs)"

definition Director :: "lib \<Rightarrow> worker \<Rightarrow> world \<Rightarrow> request \<Rightarrow> failure + request" where
  "Director L W E req =
     (if \<not> queueEnabled W then Inr (originalDirector L (target W) req)
      else
        (let req1 = originalDirector L (target W) req;
             req2 = req1\<lparr>ReqHeader := Header_Add (ReqHeader req1) ''X-Proxy-ID'' (proxyID W)\<rparr>
         in case XReadGroup E of
              Inl e \<Rightarrow> Inr req2
            | Inr messages \<Rightarrow> applyMessages L req2 messages))"

subsubsection \<open>\<open>ModifyResponse\<close>\<close>

definition ModifyResponse :: "lib \<Rightarrow> worker \<Rightarrow> request \<Rightarrow> response \<Rightarrow> failure + response" where
  "ModifyResponse L W outreq resp =
     (case applyHeaderRules L (headerRules W) resp of
        Inl e \<Rightarrow> Inl e
      | Inr resp1 \<Rightarrow>
          if Contains (Header_Get (ReqHeader outreq) ''Accept-Encoding'') ''gzip'' then
            (let h = Header_Del (Header_Set (RespHeader resp1) ''Content-Encoding'' ''gzip'')
                       ''Content-Length''
             in case RespBody resp1 of
                  Inl e \<Rightarrow> Inl e
                | Inr b \<Rightarrow>
                    Inr (resp1\<lparr>RespHeader := h, RespBody := Inr (gzip L b),
                               ContentLength := - 1\<rparr>))
          else Inr resp1)"

subsubsection \<open>Forwarding through the reverse proxy\<close>

text \<open>
  \<open>proxy.ServeHTTP\<close> of \<open>net/http/httputil\<close>, as far as the worker's hooks take part in
  it: the director prepares the outgoing request; the transport refuses a request with
  no host in its URL without sending it, and otherwise the backend answers; an error of
  the transport or of \<open>ModifyResponse\<close> goes to the default error handler (502); then
  the header of the response is added to the writer's, the status written and the body
  copied. A panic of a hook, and a body that cannot be read while it is copied, abort
  the handler. The second component is the request that was sent to the backend, if one
  was. The handling of hop-by-hop headers and of \<open>X-Forwarded-For\<close> is left out.
\<close>

definition copyHeader :: "header \<Rightarrow> header \<Rightarrow> header" where
  "copyHeader dst src =
     (\<lambda>k. case src k of
             None \<Rightarrow> dst k
           | Some vv \<Rightarrow>
               if vv = [] then dst k
               else Some ((case dst k of None \<Rightarrow> [] | Some ws \<Rightarrow> ws) @ vv))"

definition badGateway :: "header \<Rightarrow> written" where
  "badGateway h = \<lparr>status = 502, headers = h, body = []\<rparr>"

definition proxy_ServeHTTP ::
  "lib \<Rightarrow> worker \<Rightarrow> world \<Rightarrow> header \<Rightarrow> request \<Rightarrow> reply \<times> request option" where
  "proxy_ServeHTTP L W E h r =
     (case Director L W E r of
        Inl e \<Rightarrow> (Aborted e, None)
      | Inr outreq \<Rightarrow>
          if URLHost (URL outreq) = [] then (Written (badGateway h), None)
          else
            (case backend E outreq of
               Inl e \<Rightarrow> (Written (badGateway h), Some outreq)
             | Inr resp \<Rightarrow>
                 (case ModifyResponse L W outreq resp of
                    Inl (Panic m) \<Rightarrow> (Aborted (Panic m), Some outreq)
                  | Inl e \<Rightarrow> (Written (badGateway h), Some outreq)
                  | Inr resp' \<Rightarrow>
                      (case RespBody resp' of
                         Inl e \<Rightarrow> (Aborted e, Some outreq)
                       | Inr b \<Rightarrow>
                           (Written \<lparr>status = StatusCode resp',
                                     headers = copyHeader h (RespHeader resp'),
                                     body = b\<rparr>,
                            Some outreq)))))"

subsubsection \<open>The handler of \<open>/\<close>\<close>

text \<open>
  Go's \<open>int\<close> is taken as 64 bits wide: \<open>requestCounts[ip]++\<close> wraps around, and the
  comparison with 500 is signed. A key that is not in the map reads as 0.

  The result of a request: the reply, the request sent to the backend (if any), the
  map \<open>requestCounts\<close> afterwards, and the status label the deferred function counts
  the request under.
\<close>

type_synonym counts = "string \<rightharpoonup> 64 word"

definition lookupCount :: "counts \<Rightarrow> string \<Rightarrow> 64 word" where
  "lookupCount m ip = (case m ip of None \<Rightarrow> 0 | Some c \<Rightarrow> c)"

record outcome =
  reply :: reply
  upstream :: "request option"
  requestCounts :: counts
  label :: "string option"

definition respond :: "written \<Rightarrow> counts \<Rightarrow> string \<Rightarrow> outcome" where
  "respond w m l = \<lparr>reply = Written w, upstream = None, requestCounts = m, label = Some l\<rparr>"

definition rootHandler ::
  "lib \<Rightarrow> worker \<Rightarrow> world \<Rightarrow> counts \<Rightarrow> header \<Rightarrow> request \<Rightarrow> outcome" where
  "rootHandler L W E m h r =
     (let ip = RemoteAddr r;
          n = lookupCount m ip + 1;
          m' = m(ip \<mapsto> n);
          forward = (\<lambda>bodyBytes.
            let (rep, sent) = proxy_ServeHTTP L W E h (r\<lparr>ReqBody := Inr bodyBytes\<rparr>)
            in \<lparr>reply = rep, upstream = sent, requestCounts = m', label = Some ''200''\<rparr>)
      in
      if 500 <s n then respond (httpError h ''Too Many Requests'' 429) m' ''429''
      else
        case redisGet (redis E) ''active_proxy'' of
          Inl e \<Rightarrow> respond (httpError h ''Internal Server Error'' 500) m' ''500''
        | Inr activeProxy \<Rightarrow>
            if ''https://'' @ Host r \<noteq> activeProxy then
              respond (httpRedirect L h r (activeProxy @ RequestURI r) 302) m' ''302''
            else
              case ReqBody r of
                Inl e \<Rightarrow> respond (httpError h ''Failed to read request body'' 500) m' ''500''
              | Inr bodyBytes \<Rightarrow>
                  if enableDetection W then
                    (case sendToDetectionService E (RequestURI r) bodyBytes of
                       Inl e \<Rightarrow>
                         respond (httpError h ''Failed to connect to detection service'' 500)
                           m' ''500''
                     | Inr detectionResponse \<Rightarrow>
                         if detectionResponse ''authorized'' = Some (JString ''MALICIOUS'') then
                           (case file403 E of
                              Inl e \<Rightarrow>
                                respond (httpError h ''Failed to load 403 page'' 500) m' ''500''
                            | Inr htmlContent \<Rightarrow>
                                respond \<lparr>status = 403,
                                         headers = Header_Set h ''Content-Type'' ''text/html'',
                                         body = htmlContent\<rparr> m' ''403'')
                         else forward bodyBytes)
                  else forward bodyBytes)"

subsubsection \<open>The mux and the gzip middleware\<close>

text \<open>
  The worker's \<open>http.NewServeMux\<close> has the two patterns \<open>/health\<close> and \<open>/\<close>. A request
  the mux answers itself reaches neither handler and leaves \<open>requestCounts\<close> as it is.
  \<open>gzipMiddleware\<close> wraps the mux: for a request that accepts gzip it sets
  \<open>Content-Encoding\<close> on the writer before the mux runs, and every byte written goes
  through a \<open>gzip.Writer\<close>, closed when the mux returns.
\<close>

definition healthHandler :: "counts \<Rightarrow> header \<Rightarrow> outcome" where
  "healthHandler m h =
     \<lparr>reply = Written \<lparr>status = 200, headers = h, body = ''Proxy is healthy''\<rparr>,
      upstream = None, requestCounts = m, label = None\<rparr>"

definition mux :: "lib \<Rightarrow> worker \<Rightarrow> world \<Rightarrow> counts \<Rightarrow> header \<Rightarrow> request \<Rightarrow> outcome" where
  "mux L W E m h r =
     (case serveMux L [''/health'', ''/''] r of
        Answered own \<Rightarrow>
          \<lparr>reply = Written (own h), upstream = None, requestCounts = m, label = None\<rparr>
      | Dispatched pattern \<Rightarrow>
          if pattern = ''/health'' then healthHandler m h
          else if pattern = ''/'' then rootHandler L W E m h r
          else \<lparr>reply = Written (httpError h ''404 page not found'' 404), upstream = None,
                requestCounts = m, label = None\<rparr>)"

definition gzipMiddleware :: "lib \<Rightarrow> (header \<Rightarrow> request \<Rightarrow> outcome) \<Rightarrow> request \<Rightarrow> outcome" where
  "gzipMiddleware L next r =
     (if \<not> Contains (Header_Get (ReqHeader r) ''Accept-Encoding'') ''gzip'' then
        next Map.empty r
      else
        (let out = next (Header_Set Map.empty ''Content-Encoding'' ''gzip'') r
         in out\<lparr>reply :=
                  (case reply out of
                     Written w \<Rightarrow> Written (w\<lparr>body := gzip L (body w)\<rparr>)
                   | Aborted e \<Rightarrow> Aborted e)\<rparr>))"

definition handlerWithMiddleware ::
  "lib \<Rightarrow> worker \<Rightarrow> world \<Rightarrow> counts \<Rightarrow> request \<Rightarrow> outcome" where
  "handlerWithMiddleware L W E m r = gzipMiddleware L (mux L W E m) r"


text \<open>
  The source IP of a request, in the claims' sense: the part of \<open>RemoteAddr\<close> before the
  colon that precedes the port.
\<close>

definition sourceIP :: "string \<Rightarrow> string" where
  "sourceIP addr = rev (drop 1 (dropWhile (\<lambda>c. c \<noteq> CHR '':'') (rev addr)))"

subsection \<open>The proxy registry\<close>

text \<open>
  \<open>ProxyManager\<close> holds pointers to URLs; \<open>None\<close> is the nil pointer that \<open>url.Parse\<close>
  returns with an error, which \<open>NewProxyManager\<close> logs and stores all the same. The
  mutex and the ticker are left out: \<open>switchProxy\<close> runs under the lock, one call at a
  time.
\<close>

record ProxyManager =
  proxies :: "url option list"
  currentProxy :: "url option"
  domain :: string

definition NewProxyManager :: "lib \<Rightarrow> string list \<Rightarrow> string \<Rightarrow> failure + ProxyManager" where
  "NewProxyManager L proxyURLs d =
     (let ps = map (urlParse L) proxyURLs
      in case ps of
           [] \<Rightarrow> Inl (Panic ''index out of range'')
         | p # rest \<Rightarrow> Inr \<lparr>proxies = ps, currentProxy = p, domain = d\<rparr>)"

text \<open>
  \<open>rand.Shuffle n swap\<close> walks \<open>i\<close> from \<open>n - 1\<close> down to 1 and swaps position \<open>i\<close> with
  a random position \<open>j \<le> i\<close>. The random numbers are the argument \<open>draw\<close>, read
  modulo \<open>i + 1\<close>. The callback assigns \<open>proxies[i], proxies[j] = proxies[j], proxies[i]\<close>.
\<close>

definition swap :: "nat \<Rightarrow> nat \<Rightarrow> 'a list \<Rightarrow> 'a list" where
  "swap i j xs = xs[i := xs ! j, j := xs ! i]"

fun Shuffle :: "(nat \<Rightarrow> nat) \<Rightarrow> nat \<Rightarrow> 'a list \<Rightarrow> 'a list" where
  "Shuffle draw 0 xs = xs"
| "Shuffle draw (Suc i) xs = Shuffle draw i (swap (Suc i) (draw (Suc i) mod (Suc i + 1)) xs)"

definition UpdateActiveProxy :: "lib \<Rightarrow> store \<Rightarrow> url \<Rightarrow> store" where
  "UpdateActiveProxy L st u =
     (let st1 = (case redisSet st ''active_proxy'' (urlString L u) of
                   Inl e \<Rightarrow> st | Inr st' \<Rightarrow> st');
          st2 = (case redisPublish st1 ''proxy_updates'' (urlString L u) of
                   Inl e \<Rightarrow> st1 | Inr st' \<Rightarrow> st')
      in st2)"

text \<open>
  \<open>switchProxy\<close>: shuffle, take position 0, then \<open>pm.currentProxy.String()\<close> for the
  metric (a nil pointer panics there, which ends the process) and the update of the
  store.
\<close>

definition switchProxy ::
  "lib \<Rightarrow> (nat \<Rightarrow> nat) \<Rightarrow> store \<Rightarrow> ProxyManager \<Rightarrow> failure + ProxyManager \<times> store" where
  "switchProxy L draw st pm =
     (let ps = Shuffle draw (length (proxies pm) - 1) (proxies pm)
      in case ps of
           [] \<Rightarrow> Inl (Panic ''index out of range'')
         | p # rest \<Rightarrow>
             (case p of
                None \<Rightarrow> Inl (Panic ''nil pointer dereference'')
              | Some u \<Rightarrow>
                  Inr (pm\<lparr>proxies := ps, currentProxy := p\<rparr>, UpdateActiveProxy L st u)))"



text \<open>
  The states of the registry a process can be in: the one \<open>NewProxyManager\<close> builds, and
  each one a call of \<open>switchProxy\<close> returns from.
\<close>

inductive reachable :: "lib \<Rightarrow> ProxyManager \<Rightarrow> bool" for L :: lib where
  init: "NewProxyManager L proxyURLs d = Inr pm \<Longrightarrow> reachable L pm"
| step: "reachable L pm \<Longrightarrow> switchProxy L draw st pm = Inr (pm', st') \<Longrightarrow> reachable L pm'"

definition registry_inv :: "ProxyManager \<Rightarrow> bool" where
  "registry_inv pm = (proxies pm \<noteq> [] \<and> currentProxy pm \<in> set (proxies pm))"

subsubsection \<open>\<open>ProxyManager.ServeHTTP\<close>\<close>



subsection \<open>The public entry point\<close>










subsection \<open>Reading a reply\<close>

definition replyStatus :: "reply \<Rightarrow> nat option" where
  "replyStatus rep = (case rep of Written w \<Rightarrow> Some (status w) | Aborted e \<Rightarrow> None)"

definition replyHeader :: "reply \<Rightarrow> string \<Rightarrow> string list option" where
  "replyHeader rep k = (case rep of Written w \<Rightarrow> headers w k | Aborted e \<Rightarrow> None)"

definition replyBody :: "reply \<Rightarrow> string option" where
  "replyBody rep = (case rep of Written w \<Rightarrow> Some (body w) | Aborted e \<Rightarrow> None)"

subsection \<open>Concrete inputs\<close>

text \<open>
  A small stand-in for the library, to evaluate the model at concrete inputs: a gzip
  that only frames its input with the two magic bytes, replacement of a one-character
  literal pattern, the pattern \<open>(\<close> as the one that does not compile, URLs of the
  form \<open>https://host/path\<close>, and a mux over patterns without wildcards that dispatches
  a clean path to the pattern equal to it, or else to \<open>/\<close>, and answers everything else
  itself (its own answers reduced to their status).
\<close>

definition isClean :: "string \<Rightarrow> bool" where
  "isClean p =
     (HasPrefix p ''/'' \<and> \<not> Contains p ''//'' \<and> \<not> Contains (p @ ''/'') ''/./''
      \<and> \<not> Contains (p @ ''/'') ''/../'')"

definition demoMux :: "string list \<Rightarrow> request \<Rightarrow> route" where
  "demoMux patterns r =
     (if RequestURI r = ''*'' then Answered (\<lambda>h. \<lparr>status = 400, headers = h, body = []\<rparr>)
      else if Method r \<noteq> ''CONNECT'' \<and> \<not> isClean (URLPath (URL r))
      then Answered (\<lambda>h. \<lparr>status = 307, headers = h, body = []\<rparr>)
      else if URLPath (URL r) \<in> set patterns then Dispatched (URLPath (URL r))
      else Dispatched ''/'')"

definition demoLib :: lib where
  "demoLib =
     \<lparr>gzip = (\<lambda>b. CHR 0x1F # CHR 0x8B # b),
      regexCompiles = (\<lambda>re. re \<noteq> ''(''),
      ReplaceAllString = (\<lambda>re src repl. concat (map (\<lambda>c. if [c] = re then repl else [c]) src)),
      urlParse = (\<lambda>s. if HasPrefix s ''https://''
                       then Some \<lparr>URLScheme = ''https'',
                                  URLHost = takeWhile (\<lambda>c. c \<noteq> CHR ''/'') (drop 8 s),
                                  URLPath = dropWhile (\<lambda>c. c \<noteq> CHR ''/'') (drop 8 s)\<rparr>
                       else None),
      urlString = (\<lambda>u. URLScheme u @ ''://'' @ URLHost u @ URLPath u),
      joinURLPath = (\<lambda>t u. URLPath t @ URLPath u),
      redirectLocation = (\<lambda>r dest. dest),
      redirectNote = (\<lambda>dest code. []),
      urlRequestURI = URLPath,
      serveMux = demoMux\<rparr>"

text \<open>
  Worker \<open>proxy2\<close> on port 8082 in front of a backend that answers every request with
  200 and the body \<open>hello\<close>; the store names port 8081 as the active proxy.
\<close>

definition demoWorker :: worker where
  "demoWorker =
     \<lparr>proxyID = ''proxy2'',
      target = \<lparr>URLScheme = ''http'', URLHost = ''127.0.0.1:5000'', URLPath = []\<rparr>,
      queueEnabled = False, enableDetection = True, headerRules = []\<rparr>"

definition demoStore :: store where
  "demoStore = \<lparr>up = True, kv = [''active_proxy'' \<mapsto> ''https://h:8081''], published = []\<rparr>"

definition demoWorld :: world where
  "demoWorld =
     \<lparr>redis = demoStore,
      sendToDetectionService = (\<lambda>uri b. Inr [''authorized'' \<mapsto> JString ''MALICIOUS'']),
      file403 = Inr ''<h1>403</h1>'',
      XReadGroup = Inl KeyMissing,
      backend = (\<lambda>out. Inr \<lparr>StatusCode = 200, RespHeader = Map.empty,
                               RespBody = Inr ''hello'', ContentLength = 5\<rparr>)\<rparr>"

definition demoRequest :: "string \<Rightarrow> header \<Rightarrow> request" where
  "demoRequest hst hdr =
     \<lparr>Method = ''GET'', URL = \<lparr>URLScheme = [], URLHost = [], URLPath = ''/x''\<rparr>,
      Host = hst, RequestURI = ''/x'', RemoteAddr = ''10.0.0.5:40000'',
      ReqHeader = hdr, ReqBody = Inr ''ping''\<rparr>"

text \<open>The same request from another peer address.\<close>

definition requestFrom :: "string \<Rightarrow> string \<Rightarrow> request" where
  "requestFrom addr hst = (demoRequest hst Map.empty)\<lparr>RemoteAddr := addr\<rparr>"


text \<open>
  A registry of two endpoints, and an entry point with detection enabled, a maximum
  rating of 20, a heuristic that flags a request for \<open>/etc/passwd\<close>, and a session
  middleware that runs the handler it wraps.
\<close>

definition demoManager :: ProxyManager where
  "demoManager =
     \<lparr>proxies = [Some \<lparr>URLScheme = ''https'', URLHost = ''h:8081'', URLPath = []\<rparr>,
                 Some \<lparr>URLScheme = ''https'', URLHost = ''h:8082'', URLPath = []\<rparr>],
      currentProxy = Some \<lparr>URLScheme = ''https'', URLHost = ''h:8081'', URLPath = []\<rparr>,
      domain = ''h''\<rparr>"



text \<open>
  Two header rules, the first with a regular expression that does not compile, and a
  world whose backend sends a \<open>Server\<close> header.
\<close>

definition badRule :: HeaderRule where
  "badRule = \<lparr>Action = ''replace-header'', Header = ''Server'', Value = [], Regex = ''('',
               Replacement = ''x''\<rparr>"

definition frameRule :: HeaderRule where
  "frameRule = \<lparr>Action = ''set-header'', Header = ''X-Frame-Options'', Value = ''DENY'',
                 Regex = [], Replacement = []\<rparr>"

definition serverWorld :: world where
  "serverWorld =
     demoWorld\<lparr>backend := (\<lambda>out. Inr \<lparr>StatusCode = 200,
                                        RespHeader = [''Server'' \<mapsto> [''nginx'']],
                                        RespBody = Inr ''hello'', ContentLength = 5\<rparr>)\<rparr>"

section \<open>Properties\<close>

subsection \<open>Header names in canonical form\<close>

lemma canonical_keys [simp]:
  "CanonicalMIMEHeaderKey ''Accept-Encoding'' = ''Accept-Encoding''"
  "CanonicalMIMEHeaderKey ''Content-Encoding'' = ''Content-Encoding''"
  "CanonicalMIMEHeaderKey ''Content-Length'' = ''Content-Length''"
  "CanonicalMIMEHeaderKey ''Content-Type'' = ''Content-Type''"
  "CanonicalMIMEHeaderKey ''X-Content-Type-Options'' = ''X-Content-Type-Options''"
  "CanonicalMIMEHeaderKey ''Location'' = ''Location''"
  "CanonicalMIMEHeaderKey ''X-Proxy-ID'' = ''X-Proxy-Id''"
  "CanonicalMIMEHeaderKey ''Set-Cookie'' = ''Set-Cookie''"
  "CanonicalMIMEHeaderKey ''Server'' = ''Server''"
  "CanonicalMIMEHeaderKey ''server'' = ''Server''"
  "CanonicalMIMEHeaderKey ''X-Frame-Options'' = ''X-Frame-Options''"
  by code_simp+

subsection \<open>The middleware passes status, headers, counters and forwarding through\<close>

lemma gzipMiddleware_status:
  "replyStatus (reply (gzipMiddleware L next r)) =
     replyStatus (reply (next (if Contains (Header_Get (ReqHeader r) ''Accept-Encoding'') ''gzip''
        then Header_Set Map.empty ''Content-Encoding'' ''gzip'' else Map.empty) r))"
  by (simp add: gzipMiddleware_def replyStatus_def Let_def split: reply.splits)

lemma gzipMiddleware_upstream:
  "upstream (gzipMiddleware L next r) =
     upstream (next (if Contains (Header_Get (ReqHeader r) ''Accept-Encoding'') ''gzip''
        then Header_Set Map.empty ''Content-Encoding'' ''gzip'' else Map.empty) r)"
  by (simp add: gzipMiddleware_def Let_def)

lemma gzipMiddleware_counts:
  "requestCounts (gzipMiddleware L next r) =
     requestCounts (next (if Contains (Header_Get (ReqHeader r) ''Accept-Encoding'') ''gzip''
        then Header_Set Map.empty ''Content-Encoding'' ''gzip'' else Map.empty) r)"
  by (simp add: gzipMiddleware_def Let_def)

lemma gzipMiddleware_header:
  "replyHeader (reply (gzipMiddleware L next r)) k =
     replyHeader (reply (next (if Contains (Header_Get (ReqHeader r) ''Accept-Encoding'') ''gzip''
        then Header_Set Map.empty ''Content-Encoding'' ''gzip'' else Map.empty) r)) k"
  by (simp add: gzipMiddleware_def replyHeader_def Let_def split: reply.splits)

lemma gzipMiddleware_body:
  "replyBody (reply (gzipMiddleware L next r)) =
     (if Contains (Header_Get (ReqHeader r) ''Accept-Encoding'') ''gzip''
      then map_option (gzip L)
             (replyBody (reply (next (Header_Set Map.empty ''Content-Encoding'' ''gzip'') r)))
      else replyBody (reply (next Map.empty r)))"
  by (simp add: gzipMiddleware_def replyBody_def Let_def split: reply.splits)

subsection \<open>The mux and the branches of the handler of \<open>/\<close>\<close>

lemma mux_dispatched:
  "serveMux L [''/health'', ''/''] r = Dispatched ''/'' \<Longrightarrow>
   mux L W E m h r = rootHandler L W E m h r"
  by (simp add: mux_def)

lemma demoMux_root:
  "serveMux demoLib [''/health'', ''/''] (demoRequest hst hdr) = Dispatched ''/''"
  by (simp add: demoLib_def demoMux_def demoRequest_def isClean_def HasPrefix_def)

lemma rootHandler_limited:
  "500 <s lookupCount m (RemoteAddr r) + 1 \<Longrightarrow>
   rootHandler L W E m h r =
     respond (httpError h ''Too Many Requests'' 429)
       (m(RemoteAddr r \<mapsto> lookupCount m (RemoteAddr r) + 1)) ''429''"
  by (simp add: rootHandler_def Let_def)

lemma rootHandler_counts:
  "requestCounts (rootHandler L W E m h r) =
     m(RemoteAddr r \<mapsto> lookupCount m (RemoteAddr r) + 1)"
  by (simp add: rootHandler_def Let_def respond_def split: sum.splits prod.splits)

lemma rootHandler_shed:
  "\<not> 500 <s lookupCount m (RemoteAddr r) + 1 \<Longrightarrow>
   redisGet (redis E) ''active_proxy'' = Inr a \<Longrightarrow> ''https://'' @ Host r \<noteq> a \<Longrightarrow>
   rootHandler L W E m h r =
     respond (httpRedirect L h r (a @ RequestURI r) 302)
       (m(RemoteAddr r \<mapsto> lookupCount m (RemoteAddr r) + 1)) ''302''"
  by (simp add: rootHandler_def Let_def)

lemma httpRedirect_status: "status (httpRedirect L h r d c) = c"
  by (simp add: httpRedirect_def Let_def)

lemma httpRedirect_Location:
  "headers (httpRedirect L h r d c) ''Location'' = Some [redirectLocation L r d]"
  by (simp add: httpRedirect_def Let_def Header_Set_def)

subsection \<open>Shedding (C1)\<close>

text \<open>
  C1, as stated, fails: a worker that is not the active one answers 429, not 302, to a
  request whose counter has passed 500, because the rate limit is checked first. Here
  the store names port 8081, the request came to port 8082, and the counter stood at
  500.
\<close>

theorem shed_redirect_not_when_limited:
  "redisGet (redis demoWorld) ''active_proxy'' = Inr ''https://h:8081''
   \<and> ''https://'' @ Host (demoRequest ''h:8082'' Map.empty) \<noteq> ''https://h:8081''
   \<and> serveMux demoLib [''/health'', ''/''] (demoRequest ''h:8082'' Map.empty)
        = Dispatched ''/''
   \<and> replyStatus (reply (handlerWithMiddleware demoLib demoWorker demoWorld
         [''10.0.0.5:40000'' \<mapsto> 500] (demoRequest ''h:8082'' Map.empty))) = Some 429"
proof -
  have l: "500 <s lookupCount [''10.0.0.5:40000'' \<mapsto> 500]
             (RemoteAddr (demoRequest ''h:8082'' Map.empty)) + 1"
    by (simp add: demoRequest_def lookupCount_def word_sless_alt)
  have "replyStatus (reply (handlerWithMiddleware demoLib demoWorker demoWorld
         [''10.0.0.5:40000'' \<mapsto> 500] (demoRequest ''h:8082'' Map.empty))) = Some 429"
    unfolding handlerWithMiddleware_def gzipMiddleware_status
      mux_dispatched [OF demoMux_root] rootHandler_limited [OF l]
    by (simp add: respond_def httpError_def replyStatus_def)
  moreover have "redisGet (redis demoWorld) ''active_proxy'' = Inr ''https://h:8081''"
    by (simp add: demoWorld_def demoStore_def redisGet_def)
  moreover have "''https://'' @ Host (demoRequest ''h:8082'' Map.empty) \<noteq> ''https://h:8081''"
    by (simp add: demoRequest_def)
  ultimately show ?thesis using demoMux_root by simp
qed

text \<open>
  C1, amended: a request that the worker's mux dispatches to the handler of \<open>/\<close>, whose
  counter (kept under \<open>r.RemoteAddr\<close>) after the increment does not exceed 500, while
  the store returns an \<open>active_proxy\<close> different from \<open>https://\<close> followed by the
  request's Host: the worker answers 302, the \<open>Location\<close> is the one \<open>http.Redirect\<close>
  gives for the target \<open>active_proxy\<close> followed by the RequestURI, and nothing is sent to
  the backend.
\<close>

theorem shed_redirect:
  assumes "serveMux L [''/health'', ''/''] r = Dispatched ''/''"
    and "\<not> 500 <s lookupCount m (RemoteAddr r) + 1"
    and "redisGet (redis E) ''active_proxy'' = Inr a"
    and "''https://'' @ Host r \<noteq> a"
  shows "replyStatus (reply (handlerWithMiddleware L W E m r)) = Some 302
       \<and> replyHeader (reply (handlerWithMiddleware L W E m r)) ''Location''
           = Some [redirectLocation L r (a @ RequestURI r)]
       \<and> upstream (handlerWithMiddleware L W E m r) = None"
proof -
  let ?h = "if Contains (Header_Get (ReqHeader r) ''Accept-Encoding'') ''gzip''
        then Header_Set Map.empty ''Content-Encoding'' ''gzip'' else Map.empty"
  have out: "mux L W E m ?h r =
     respond (httpRedirect L ?h r (a @ RequestURI r) 302)
       (m(RemoteAddr r \<mapsto> lookupCount m (RemoteAddr r) + 1)) ''302''"
    using assms by (simp add: mux_dispatched rootHandler_shed)
  have "replyStatus (reply (gzipMiddleware L (mux L W E m) r)) = Some 302"
    unfolding gzipMiddleware_status out
    by (simp add: respond_def replyStatus_def httpRedirect_status)
  moreover have "replyHeader (reply (gzipMiddleware L (mux L W E m) r)) ''Location''
           = Some [redirectLocation L r (a @ RequestURI r)]"
    unfolding gzipMiddleware_header out
    by (simp add: respond_def replyHeader_def httpRedirect_Location)
  moreover have "upstream (gzipMiddleware L (mux L W E m) r) = None"
    unfolding gzipMiddleware_upstream out by (simp add: respond_def)
  ultimately show ?thesis by (simp add: handlerWithMiddleware_def)
qed

theorem shed_redirect_witness:
  "serveMux demoLib [''/health'', ''/''] (demoRequest ''h:8082'' Map.empty) = Dispatched ''/''
   \<and> \<not> 500 <s lookupCount Map.empty (RemoteAddr (demoRequest ''h:8082'' Map.empty)) + 1
   \<and> redisGet (redis demoWorld) ''active_proxy'' = Inr ''https://h:8081''
   \<and> ''https://'' @ Host (demoRequest ''h:8082'' Map.empty) \<noteq> ''https://h:8081''
   \<and> replyStatus (reply (handlerWithMiddleware demoLib demoWorker demoWorld Map.empty
         (demoRequest ''h:8082'' Map.empty))) = Some 302
   \<and> replyHeader (reply (handlerWithMiddleware demoLib demoWorker demoWorld Map.empty
         (demoRequest ''h:8082'' Map.empty))) ''Location''
        = Some [''https://h:8081'' @ RequestURI (demoRequest ''h:8082'' Map.empty)]
   \<and> upstream (handlerWithMiddleware demoLib demoWorker demoWorld Map.empty
         (demoRequest ''h:8082'' Map.empty)) = None"
proof -
  have d: "serveMux demoLib [''/health'', ''/''] (demoRequest ''h:8082'' Map.empty)
             = Dispatched ''/''"
    by (rule demoMux_root)
  have l: "\<not> 500 <s lookupCount Map.empty (RemoteAddr (demoRequest ''h:8082'' Map.empty)) + 1"
    by (simp add: lookupCount_def word_sless_alt)
  have g: "redisGet (redis demoWorld) ''active_proxy'' = Inr ''https://h:8081''"
    by (simp add: demoWorld_def demoStore_def redisGet_def)
  have n: "''https://'' @ Host (demoRequest ''h:8082'' Map.empty) \<noteq> ''https://h:8081''"
    by (simp add: demoRequest_def)
  have loc: "redirectLocation demoLib r dest = dest" for r dest
    by (simp add: demoLib_def)
  from shed_redirect [OF d l g n, of demoWorker] d l g n show ?thesis
    by (simp add: loc)
qed

subsection \<open>The rate limit (C3, C10)\<close>

lemma demoMux_from:
  "serveMux demoLib [''/health'', ''/''] (requestFrom addr hst) = Dispatched ''/''"
  by (simp add: demoLib_def demoMux_def requestFrom_def demoRequest_def isClean_def
      HasPrefix_def)

lemma requestCounts_step:
  "serveMux L [''/health'', ''/''] r = Dispatched ''/'' \<Longrightarrow>
   requestCounts (handlerWithMiddleware L W E m r) =
     m(RemoteAddr r \<mapsto> lookupCount m (RemoteAddr r) + 1)"
  by (simp add: handlerWithMiddleware_def gzipMiddleware_counts mux_dispatched
      rootHandler_counts)

lemma ReqBody_same: "ReqBody r = Inr b \<Longrightarrow> r\<lparr>ReqBody := Inr b\<rparr> = r"
  by (cases r) simp

lemma originalDirector_keeps:
  "ReqBody (originalDirector L t r) = ReqBody r"
  "ReqHeader (originalDirector L t r) = ReqHeader r"
  "URLHost (URL (originalDirector L t r)) = URLHost t"
  by (simp_all add: originalDirector_def)

lemma rootHandler_forward:
  "\<not> 500 <s lookupCount m (RemoteAddr r) + 1 \<Longrightarrow>
   redisGet (redis E) ''active_proxy'' = Inr (''https://'' @ Host r) \<Longrightarrow>
   ReqBody r = Inr b \<Longrightarrow> \<not> enableDetection W \<Longrightarrow>
   rootHandler L W E m h r =
     \<lparr>reply = fst (proxy_ServeHTTP L W E h r), upstream = snd (proxy_ServeHTTP L W E h r),
      requestCounts = m(RemoteAddr r \<mapsto> lookupCount m (RemoteAddr r) + 1),
      label = Some ''200''\<rparr>"
  by (simp add: rootHandler_def Let_def ReqBody_same split: prod.splits)

lemma proxy_ServeHTTP_plain:
  assumes "\<not> Contains (Header_Get (ReqHeader r) ''Accept-Encoding'') ''gzip''"
    and "headerRules W = []"
    and "\<not> queueEnabled W"
    and "URLHost (target W) \<noteq> []"
    and "backend E (originalDirector L (target W) r) = Inr resp"
    and "RespBody resp = Inr b"
  shows "proxy_ServeHTTP L W E h r =
     (Written \<lparr>status = StatusCode resp, headers = copyHeader h (RespHeader resp),
               body = b\<rparr>,
      Some (originalDirector L (target W) r))"
  using assms
  by (simp add: proxy_ServeHTTP_def Director_def ModifyResponse_def originalDirector_keeps)

text \<open>
  C3 does not hold of the code. The counter is kept under \<open>r.RemoteAddr\<close>, which is the
  peer's \<open>IP:port\<close>, although the code calls it \<open>ip\<close>: a request from the same IP over
  another connection finds no counter. Here the address \<open>10.0.0.5:40000\<close> has used up
  its 500 requests; the next request of the same IP comes from port 40001, starts a
  counter of its own at 1, leaves the other at 500, and is forwarded to the backend
  and answered with 200.
\<close>

theorem counter_keyed_by_address:
  "sourceIP (RemoteAddr (requestFrom ''10.0.0.5:40001'' ''h:8081'')) = sourceIP ''10.0.0.5:40000''
   \<and> serveMux demoLib [''/health'', ''/''] (requestFrom ''10.0.0.5:40001'' ''h:8081'')
        = Dispatched ''/''
   \<and> requestCounts (handlerWithMiddleware demoLib (demoWorker\<lparr>enableDetection := False\<rparr>)
        demoWorld [''10.0.0.5:40000'' \<mapsto> 500] (requestFrom ''10.0.0.5:40001'' ''h:8081''))
        ''10.0.0.5:40000'' = Some 500
   \<and> requestCounts (handlerWithMiddleware demoLib (demoWorker\<lparr>enableDetection := False\<rparr>)
        demoWorld [''10.0.0.5:40000'' \<mapsto> 500] (requestFrom ''10.0.0.5:40001'' ''h:8081''))
        ''10.0.0.5:40001'' = Some 1
   \<and> replyStatus (reply (handlerWithMiddleware demoLib
        (demoWorker\<lparr>enableDetection := False\<rparr>) demoWorld [''10.0.0.5:40000'' \<mapsto> 500]
        (requestFrom ''10.0.0.5:40001'' ''h:8081''))) = Some 200
   \<and> upstream (handlerWithMiddleware demoLib (demoWorker\<lparr>enableDetection := False\<rparr>)
        demoWorld [''10.0.0.5:40000'' \<mapsto> 500] (requestFrom ''10.0.0.5:40001'' ''h:8081''))
        = Some (originalDirector demoLib (target demoWorker)
                  (requestFrom ''10.0.0.5:40001'' ''h:8081''))"
proof -
  let ?W = "demoWorker\<lparr>enableDetection := False\<rparr>"
  let ?r = "requestFrom ''10.0.0.5:40001'' ''h:8081''"
  let ?m = "[''10.0.0.5:40000'' \<mapsto> 500] :: counts"
  have ip: "sourceIP (RemoteAddr ?r) = sourceIP ''10.0.0.5:40000''"
    by (simp add: sourceIP_def requestFrom_def)
  have d: "serveMux demoLib [''/health'', ''/''] ?r = Dispatched ''/''"
    by (rule demoMux_from)
  have c: "requestCounts (handlerWithMiddleware demoLib ?W demoWorld ?m ?r)
             = ?m(''10.0.0.5:40001'' \<mapsto> 1)"
    unfolding requestCounts_step [OF d] by (simp add: requestFrom_def lookupCount_def)
  have l: "\<not> 500 <s lookupCount ?m (RemoteAddr ?r) + 1"
    by (simp add: requestFrom_def lookupCount_def word_sless_alt)
  have g: "redisGet (redis demoWorld) ''active_proxy'' = Inr (''https://'' @ Host ?r)"
    by (simp add: demoWorld_def demoStore_def redisGet_def requestFrom_def demoRequest_def)
  have b: "ReqBody ?r = Inr ''ping''"
    by (simp add: requestFrom_def demoRequest_def)
  have e: "\<not> enableDetection ?W" by simp
  have a: "\<not> Contains (Header_Get (ReqHeader ?r) ''Accept-Encoding'') ''gzip''"
    by (simp add: requestFrom_def demoRequest_def Header_Get_def)
  have p: "proxy_ServeHTTP demoLib ?W demoWorld h ?r =
     (Written \<lparr>status = 200, headers = copyHeader h Map.empty, body = ''hello''\<rparr>,
      Some (originalDirector demoLib (target demoWorker) ?r))" for h
    using proxy_ServeHTTP_plain [of ?r ?W demoWorld demoLib
        "\<lparr>StatusCode = 200, RespHeader = Map.empty, RespBody = Inr ''hello'',
          ContentLength = 5\<rparr>" "''hello''" h] a
    by (simp add: demoWorker_def demoWorld_def)
  have s: "replyStatus (reply (handlerWithMiddleware demoLib ?W demoWorld ?m ?r)) = Some 200"
    unfolding handlerWithMiddleware_def gzipMiddleware_status mux_dispatched [OF d]
      rootHandler_forward [OF l g b e] p
    by (simp add: replyStatus_def)
  have u: "upstream (handlerWithMiddleware demoLib ?W demoWorld ?m ?r)
             = Some (originalDirector demoLib (target demoWorker) ?r)"
    unfolding handlerWithMiddleware_def gzipMiddleware_upstream mux_dispatched [OF d]
      rootHandler_forward [OF l g b e] p
    by simp
  from ip d c s u show ?thesis by simp
qed




subsection \<open>A request classified as malicious (C4)\<close>

lemma rootHandler_malicious:
  "\<not> 500 <s lookupCount m (RemoteAddr r) + 1 \<Longrightarrow>
   redisGet (redis E) ''active_proxy'' = Inr (''https://'' @ Host r) \<Longrightarrow>
   ReqBody r = Inr b \<Longrightarrow> enableDetection W \<Longrightarrow>
   sendToDetectionService E (RequestURI r) b = Inr d \<Longrightarrow>
   d ''authorized'' = Some (JString ''MALICIOUS'') \<Longrightarrow>
   rootHandler L W E m h r =
     (case file403 E of
        Inl e \<Rightarrow> respond (httpError h ''Failed to load 403 page'' 500)
                   (m(RemoteAddr r \<mapsto> lookupCount m (RemoteAddr r) + 1)) ''500''
      | Inr htmlContent \<Rightarrow>
          respond \<lparr>status = 403, headers = Header_Set h ''Content-Type'' ''text/html'',
                   body = htmlContent\<rparr>
            (m(RemoteAddr r \<mapsto> lookupCount m (RemoteAddr r) + 1)) ''403'')"
  by (simp add: rootHandler_def Let_def)

text \<open>
  C4, as stated, fails: when \<open>403.html\<close> cannot be read, a request that the detection
  service classifies as malicious is answered with 500.
\<close>

theorem malicious_without_page:
  "serveMux demoLib [''/health'', ''/''] (demoRequest ''h:8081'' Map.empty) = Dispatched ''/''
   \<and> sendToDetectionService (demoWorld\<lparr>file403 := Inl FileFailure\<rparr>)
      (RequestURI (demoRequest ''h:8081'' Map.empty)) ''ping''
        = Inr [''authorized'' \<mapsto> JString ''MALICIOUS'']
   \<and> replyStatus (reply (handlerWithMiddleware demoLib demoWorker
        (demoWorld\<lparr>file403 := Inl FileFailure\<rparr>) Map.empty
        (demoRequest ''h:8081'' Map.empty))) = Some 500"
proof -
  let ?E = "demoWorld\<lparr>file403 := Inl FileFailure\<rparr>"
  let ?r = "demoRequest ''h:8081'' Map.empty"
  have d: "serveMux demoLib [''/health'', ''/''] ?r = Dispatched ''/''"
    by (rule demoMux_root)
  have l: "\<not> 500 <s lookupCount Map.empty (RemoteAddr ?r) + 1"
    by (simp add: lookupCount_def word_sless_alt)
  have g: "redisGet (redis ?E) ''active_proxy'' = Inr (''https://'' @ Host ?r)"
    by (simp add: demoWorld_def demoStore_def redisGet_def demoRequest_def)
  have b: "ReqBody ?r = Inr ''ping''"
    by (simp add: demoRequest_def)
  have e: "enableDetection demoWorker"
    by (simp add: demoWorker_def)
  have s: "sendToDetectionService ?E (RequestURI ?r) ''ping''
             = Inr [''authorized'' \<mapsto> JString ''MALICIOUS'']"
    by (simp add: demoWorld_def)
  have a: "[''authorized'' \<mapsto> JString ''MALICIOUS''] ''authorized''
             = Some (JString ''MALICIOUS'')"
    by simp
  have "replyStatus (reply (handlerWithMiddleware demoLib demoWorker ?E Map.empty ?r))
          = Some 500"
    unfolding handlerWithMiddleware_def gzipMiddleware_status mux_dispatched [OF d]
      rootHandler_malicious [OF l g b e s a]
    by (simp add: respond_def replyStatus_def httpError_def)
  with d s show ?thesis by simp
qed

text \<open>
  C4, amended: for a request that reaches the detection step (the mux dispatches it to
  the handler of \<open>/\<close>, counter not above 500, the worker is the active proxy, the body
  was read, detection enabled) and that the detection service classifies \<open>MALICIOUS\<close>:
  if \<open>403.html\<close> can be read, the status is 403, the \<open>Content-Type\<close> is \<open>text/html\<close> and
  the body is the content of the file, which the middleware compresses when the
  request accepts gzip; if the file cannot be read, the status is 500. In both cases
  nothing is sent to the backend.
\<close>

theorem malicious_forbidden:
  assumes "serveMux L [''/health'', ''/''] r = Dispatched ''/''"
    and "\<not> 500 <s lookupCount m (RemoteAddr r) + 1"
    and "redisGet (redis E) ''active_proxy'' = Inr (''https://'' @ Host r)"
    and "ReqBody r = Inr b"
    and "enableDetection W"
    and "sendToDetectionService E (RequestURI r) b = Inr d"
    and "d ''authorized'' = Some (JString ''MALICIOUS'')"
  shows "(case file403 E of
            Inr htmlContent \<Rightarrow>
              replyStatus (reply (handlerWithMiddleware L W E m r)) = Some 403
            \<and> replyHeader (reply (handlerWithMiddleware L W E m r)) ''Content-Type''
                = Some [''text/html'']
            \<and> replyBody (reply (handlerWithMiddleware L W E m r))
                = Some (if Contains (Header_Get (ReqHeader r) ''Accept-Encoding'') ''gzip''
                        then gzip L htmlContent else htmlContent)
          | Inl e \<Rightarrow>
              replyStatus (reply (handlerWithMiddleware L W E m r)) = Some 500)
       \<and> upstream (handlerWithMiddleware L W E m r) = None"
proof -
  have out: "mux L W E m h r =
     (case file403 E of
        Inl e \<Rightarrow> respond (httpError h ''Failed to load 403 page'' 500)
                   (m(RemoteAddr r \<mapsto> lookupCount m (RemoteAddr r) + 1)) ''500''
      | Inr htmlContent \<Rightarrow>
          respond \<lparr>status = 403, headers = Header_Set h ''Content-Type'' ''text/html'',
                   body = htmlContent\<rparr>
            (m(RemoteAddr r \<mapsto> lookupCount m (RemoteAddr r) + 1)) ''403'')" for h
    using assms by (simp add: mux_dispatched rootHandler_malicious)
  show ?thesis
  proof (cases "file403 E")
    case (Inl e)
    then show ?thesis
      unfolding handlerWithMiddleware_def gzipMiddleware_status gzipMiddleware_upstream out
      by (simp add: respond_def replyStatus_def httpError_def)
  next
    case (Inr htmlContent)
    then show ?thesis
      unfolding handlerWithMiddleware_def gzipMiddleware_status gzipMiddleware_upstream
        gzipMiddleware_header gzipMiddleware_body out
      by (simp add: respond_def replyStatus_def replyHeader_def replyBody_def Header_Set_def)
  qed
qed

theorem malicious_forbidden_witness:
  "serveMux demoLib [''/health'', ''/''] (demoRequest ''h:8081'' Map.empty) = Dispatched ''/''
   \<and> \<not> 500 <s lookupCount Map.empty (RemoteAddr (demoRequest ''h:8081'' Map.empty)) + 1
   \<and> redisGet (redis demoWorld) ''active_proxy''
        = Inr (''https://'' @ Host (demoRequest ''h:8081'' Map.empty))
   \<and> ReqBody (demoRequest ''h:8081'' Map.empty) = Inr ''ping''
   \<and> enableDetection demoWorker
   \<and> sendToDetectionService demoWorld (RequestURI (demoRequest ''h:8081'' Map.empty)) ''ping''
        = Inr [''authorized'' \<mapsto> JString ''MALICIOUS'']
   \<and> file403 demoWorld = Inr ''<h1>403</h1>''
   \<and> replyStatus (reply (handlerWithMiddleware demoLib demoWorker demoWorld Map.empty
        (demoRequest ''h:8081'' Map.empty))) = Some 403
   \<and> replyHeader (reply (handlerWithMiddleware demoLib demoWorker demoWorld Map.empty
        (demoRequest ''h:8081'' Map.empty))) ''Content-Type'' = Some [''text/html'']
   \<and> replyBody (reply (handlerWithMiddleware demoLib demoWorker demoWorld Map.empty
        (demoRequest ''h:8081'' Map.empty))) = Some ''<h1>403</h1>''
   \<and> upstream (handlerWithMiddleware demoLib demoWorker demoWorld Map.empty
        (demoRequest ''h:8081'' Map.empty)) = None"
proof -
  let ?r = "demoRequest ''h:8081'' Map.empty"
  have d: "serveMux demoLib [''/health'', ''/''] ?r = Dispatched ''/''"
    by (rule demoMux_root)
  have l: "\<not> 500 <s lookupCount Map.empty (RemoteAddr ?r) + 1"
    by (simp add: lookupCount_def word_sless_alt)
  have g: "redisGet (redis demoWorld) ''active_proxy'' = Inr (''https://'' @ Host ?r)"
    by (simp add: demoWorld_def demoStore_def redisGet_def demoRequest_def)
  have b: "ReqBody ?r = Inr ''ping''"
    by (simp add: demoRequest_def)
  have e: "enableDetection demoWorker"
    by (simp add: demoWorker_def)
  have s: "sendToDetectionService demoWorld (RequestURI ?r) ''ping''
             = Inr [''authorized'' \<mapsto> JString ''MALICIOUS'']"
    by (simp add: demoWorld_def)
  have a: "[''authorized'' \<mapsto> JString ''MALICIOUS''] ''authorized''
             = Some (JString ''MALICIOUS'')"
    by simp
  have f: "file403 demoWorld = Inr ''<h1>403</h1>''"
    by (simp add: demoWorld_def)
  have na: "\<not> Contains (Header_Get (ReqHeader ?r) ''Accept-Encoding'') ''gzip''"
    by (simp add: demoRequest_def Header_Get_def)
  from malicious_forbidden [OF d l g b e s a] d l g b e s f na
  show ?thesis by simp
qed

subsection \<open>The entry point's mux\<close>






subsection \<open>The store out of reach (C9)\<close>







subsection \<open>The suspicion rating at the entry point (C8)\<close>




subsection \<open>The header-rule engine (C6, C7)\<close>

text \<open>
  C6 does not hold of the code. \<open>replace-header\<close> reads the header with \<open>Header.Get\<close>,
  which returns the first occurrence only, and writes the result back with
  \<open>Header.Set\<close>, which replaces all occurrences by that one value: the replacement is
  made in the first occurrence, and every other occurrence is dropped, unchanged or not.
  The occurrences are those under the canonical form of the rule's header name.
\<close>

theorem replace_header_first_only:
  assumes "Action rule = ''replace-header''"
    and "Regex rule \<noteq> []"
    and "regexCompiles L (Regex rule)"
    and "RespHeader resp (CanonicalMIMEHeaderKey (Header rule)) = Some (v # vs)"
    and "v \<noteq> []"
  shows "applyHeaderRules L [rule] resp =
           Inr (resp\<lparr>RespHeader := (RespHeader resp)
                  (CanonicalMIMEHeaderKey (Header rule)
                     \<mapsto> [ReplaceAllString L (Regex rule) v (Replacement rule)])\<rparr>)"
  using assms by (simp add: applyHeaderRule_def Header_Get_def Header_Set_def)

theorem replace_header_first_only_witness:
  "applyHeaderRules demoLib
     [\<lparr>Action = ''replace-header'', Header = ''Set-Cookie'', Value = [], Regex = ''o'',
       Replacement = ''0''\<rparr>]
     \<lparr>StatusCode = 200, RespHeader = [''Set-Cookie'' \<mapsto> [''foo=1'', ''boo=2'']],
      RespBody = Inr [], ContentLength = 0\<rparr>
   = Inr \<lparr>StatusCode = 200, RespHeader = [''Set-Cookie'' \<mapsto> [''f00=1'']],
          RespBody = Inr [], ContentLength = 0\<rparr>"
  using replace_header_first_only [of
      "\<lparr>Action = ''replace-header'', Header = ''Set-Cookie'', Value = [], Regex = ''o'',
        Replacement = ''0''\<rparr>" demoLib
      "\<lparr>StatusCode = 200, RespHeader = [''Set-Cookie'' \<mapsto> [''foo=1'', ''boo=2'']],
        RespBody = Inr [], ContentLength = 0\<rparr>" "''foo=1''" "[''boo=2'']"]
  by (simp add: demoLib_def)

text \<open>
  C7 does not hold of the code. The regular expression is compiled with
  \<open>regexp.MustCompile\<close> when the rule is applied to a header with a non-empty first
  value: an expression that does not compile panics, the rules after it are not
  applied, and the panic leaves \<open>ModifyResponse\<close> and aborts the reply.
\<close>

theorem bad_regex_panics:
  assumes "Action rule = ''replace-header''"
    and "Regex rule \<noteq> []"
    and "\<not> regexCompiles L (Regex rule)"
    and "Header_Get (RespHeader resp) (Header rule) \<noteq> []"
    and "headerRules W = rule # rules"
    and "Director L W E r = Inr outreq"
    and "URLHost (URL outreq) \<noteq> []"
    and "backend E outreq = Inr resp"
  shows "applyHeaderRules L (headerRules W) resp = Inl (Panic ''regexp: Compile'')
       \<and> ModifyResponse L W outreq resp = Inl (Panic ''regexp: Compile'')
       \<and> fst (proxy_ServeHTTP L W E h r) = Aborted (Panic ''regexp: Compile'')"
proof -
  have 1: "applyHeaderRules L (headerRules W) resp = Inl (Panic ''regexp: Compile'')"
    using assms(1-5) by (simp add: applyHeaderRule_def)
  then have 2: "ModifyResponse L W outreq resp = Inl (Panic ''regexp: Compile'')"
    by (simp add: ModifyResponse_def)
  have 3: "fst (proxy_ServeHTTP L W E h r) = Aborted (Panic ''regexp: Compile'')"
    using assms(6-8) 2 by (simp add: proxy_ServeHTTP_def)
  from 1 2 3 show ?thesis by simp
qed

theorem bad_regex_panics_witness:
  "Director demoLib (demoWorker\<lparr>headerRules := [badRule, frameRule],
        enableDetection := False\<rparr>) serverWorld (demoRequest ''h:8081'' Map.empty)
     = Inr (originalDirector demoLib (target demoWorker) (demoRequest ''h:8081'' Map.empty))
   \<and> applyHeaderRules demoLib [badRule, frameRule]
       \<lparr>StatusCode = 200, RespHeader = [''Server'' \<mapsto> [''nginx'']],
        RespBody = Inr ''hello'', ContentLength = 5\<rparr>
     = Inl (Panic ''regexp: Compile'')
   \<and> fst (proxy_ServeHTTP demoLib (demoWorker\<lparr>headerRules := [badRule, frameRule],
        enableDetection := False\<rparr>) serverWorld Map.empty (demoRequest ''h:8081'' Map.empty))
     = Aborted (Panic ''regexp: Compile'')
   \<and> serveMux demoLib [''/health'', ''/''] (demoRequest ''h:8081'' Map.empty) = Dispatched ''/''
   \<and> reply (handlerWithMiddleware demoLib
        (demoWorker\<lparr>headerRules := [badRule, frameRule], enableDetection := False\<rparr>)
        serverWorld Map.empty (demoRequest ''h:8081'' Map.empty))
     = Aborted (Panic ''regexp: Compile'')"
proof -
  let ?W = "demoWorker\<lparr>headerRules := [badRule, frameRule], enableDetection := False\<rparr>"
  let ?r = "demoRequest ''h:8081'' Map.empty"
  let ?resp = "\<lparr>StatusCode = 200, RespHeader = [''Server'' \<mapsto> [''nginx'']],
        RespBody = Inr ''hello'', ContentLength = 5\<rparr>"
  let ?out = "originalDirector demoLib (target demoWorker) ?r"
  have r1: "Action badRule = ''replace-header''" by (simp add: badRule_def)
  have r2: "Regex badRule \<noteq> []" by (simp add: badRule_def)
  have r3: "\<not> regexCompiles demoLib (Regex badRule)" by (simp add: badRule_def demoLib_def)
  have r4: "Header_Get (RespHeader ?resp) (Header badRule) \<noteq> []"
    by (simp add: badRule_def Header_Get_def)
  have hr: "headerRules ?W = badRule # [frameRule]" by simp
  have dr: "Director demoLib ?W serverWorld ?r = Inr ?out"
    by (simp add: Director_def demoWorker_def)
  have uh: "URLHost (URL ?out) \<noteq> []"
    by (simp add: originalDirector_def demoWorker_def)
  have k: "backend serverWorld ?out = Inr ?resp"
    by (simp add: serverWorld_def)
  note panics = bad_regex_panics [OF r1 r2 r3 r4 hr dr uh k]
  have d: "serveMux demoLib [''/health'', ''/''] ?r = Dispatched ''/''"
    by (rule demoMux_root)
  have l: "\<not> 500 <s lookupCount Map.empty (RemoteAddr ?r) + 1"
    by (simp add: lookupCount_def word_sless_alt)
  have g: "redisGet (redis serverWorld) ''active_proxy'' = Inr (''https://'' @ Host ?r)"
    by (simp add: serverWorld_def demoWorld_def demoStore_def redisGet_def demoRequest_def)
  have b: "ReqBody ?r = Inr ''ping''"
    by (simp add: demoRequest_def)
  have e: "\<not> enableDetection ?W" by simp
  have na: "\<not> Contains (Header_Get (ReqHeader ?r) ''Accept-Encoding'') ''gzip''"
    by (simp add: demoRequest_def Header_Get_def)
  have w: "reply (handlerWithMiddleware demoLib ?W serverWorld Map.empty ?r)
             = Aborted (Panic ''regexp: Compile'')"
    using na panics [of Map.empty]
    by (simp add: handlerWithMiddleware_def gzipMiddleware_def mux_dispatched [OF d]
        rootHandler_forward [OF l g b e])
  from panics [of Map.empty] dr d w show ?thesis by simp
qed

subsection \<open>Gzip on the way back (C5)\<close>

lemma proxy_ServeHTTP_gzip:
  assumes "Contains (Header_Get (ReqHeader r) ''Accept-Encoding'') ''gzip''"
    and "headerRules W = []"
    and "\<not> queueEnabled W"
    and "URLHost (target W) \<noteq> []"
    and "backend E (originalDirector L (target W) r) = Inr resp"
    and "RespBody resp = Inr b"
  shows "proxy_ServeHTTP L W E h r =
     (Written \<lparr>status = StatusCode resp,
               headers = copyHeader h
                 (Header_Del (Header_Set (RespHeader resp) ''Content-Encoding'' ''gzip'')
                    ''Content-Length''),
               body = gzip L b\<rparr>,
      Some (originalDirector L (target W) r))"
  using assms
  by (simp add: proxy_ServeHTTP_def Director_def ModifyResponse_def originalDirector_keeps
      Let_def)

text \<open>
  C5 does not hold of the code. The body of the request reaches the backend as the
  client sent it, but the body of the response is compressed twice: once by
  \<open>ModifyResponse\<close>, and once more by the writer of \<open>gzipMiddleware\<close>, through which the
  reverse proxy copies it. Both test the same \<open>Accept-Encoding\<close>. One decoding gives
  the client the gzip of the backend's body, not the body; the reply names
  \<open>Content-Encoding: gzip\<close> twice.
\<close>

theorem gzip_applied_twice:
  assumes "serveMux L [''/health'', ''/''] r = Dispatched ''/''"
    and "\<not> 500 <s lookupCount m (RemoteAddr r) + 1"
    and "redisGet (redis E) ''active_proxy'' = Inr (''https://'' @ Host r)"
    and "ReqBody r = Inr b"
    and "\<not> enableDetection W"
    and "Contains (Header_Get (ReqHeader r) ''Accept-Encoding'') ''gzip''"
    and "headerRules W = []"
    and "\<not> queueEnabled W"
    and "URLHost (target W) \<noteq> []"
    and "backend E (originalDirector L (target W) r) = Inr resp"
    and "RespBody resp = Inr b'"
  shows "upstream (handlerWithMiddleware L W E m r) = Some (originalDirector L (target W) r)
       \<and> ReqBody (originalDirector L (target W) r) = Inr b
       \<and> replyStatus (reply (handlerWithMiddleware L W E m r)) = Some (StatusCode resp)
       \<and> replyHeader (reply (handlerWithMiddleware L W E m r)) ''Content-Encoding''
           = Some [''gzip'', ''gzip'']
       \<and> replyBody (reply (handlerWithMiddleware L W E m r)) = Some (gzip L (gzip L b'))"
proof -
  have out: "mux L W E m h r =
     \<lparr>reply = Written \<lparr>status = StatusCode resp,
               headers = copyHeader h
                 (Header_Del (Header_Set (RespHeader resp) ''Content-Encoding'' ''gzip'')
                    ''Content-Length''),
               body = gzip L b'\<rparr>,
      upstream = Some (originalDirector L (target W) r),
      requestCounts = m(RemoteAddr r \<mapsto> lookupCount m (RemoteAddr r) + 1),
      label = Some ''200''\<rparr>" for h
    using assms by (simp add: mux_dispatched rootHandler_forward proxy_ServeHTTP_gzip)
  show ?thesis
    unfolding handlerWithMiddleware_def gzipMiddleware_status gzipMiddleware_upstream
      gzipMiddleware_header gzipMiddleware_body out
    using assms(4,6)
    by (simp add: replyStatus_def replyHeader_def replyBody_def originalDirector_keeps
        copyHeader_def Header_Set_def Header_Del_def)
qed

theorem gzip_applied_twice_witness:
  "serveMux demoLib [''/health'', ''/'']
      (demoRequest ''h:8081'' [''Accept-Encoding'' \<mapsto> [''gzip'']]) = Dispatched ''/''
   \<and> Contains (Header_Get (ReqHeader (demoRequest ''h:8081''
        [''Accept-Encoding'' \<mapsto> [''gzip'']])) ''Accept-Encoding'') ''gzip''
   \<and> replyBody (reply (handlerWithMiddleware demoLib (demoWorker\<lparr>enableDetection := False\<rparr>)
      demoWorld Map.empty (demoRequest ''h:8081'' [''Accept-Encoding'' \<mapsto> [''gzip'']])))
     = Some (gzip demoLib (gzip demoLib ''hello''))
   \<and> gzip demoLib (gzip demoLib ''hello'') = [CHR 0x1F, CHR 0x8B, CHR 0x1F, CHR 0x8B] @ ''hello''
   \<and> replyHeader (reply (handlerWithMiddleware demoLib
        (demoWorker\<lparr>enableDetection := False\<rparr>) demoWorld Map.empty
        (demoRequest ''h:8081'' [''Accept-Encoding'' \<mapsto> [''gzip'']]))) ''Content-Encoding''
     = Some [''gzip'', ''gzip'']
   \<and> upstream (handlerWithMiddleware demoLib (demoWorker\<lparr>enableDetection := False\<rparr>)
      demoWorld Map.empty (demoRequest ''h:8081'' [''Accept-Encoding'' \<mapsto> [''gzip'']]))
     = Some (originalDirector demoLib (target demoWorker)
               (demoRequest ''h:8081'' [''Accept-Encoding'' \<mapsto> [''gzip'']]))
   \<and> ReqBody (originalDirector demoLib (target demoWorker)
               (demoRequest ''h:8081'' [''Accept-Encoding'' \<mapsto> [''gzip'']])) = Inr ''ping''"
proof -
  let ?W = "demoWorker\<lparr>enableDetection := False\<rparr>"
  let ?r = "demoRequest ''h:8081'' [''Accept-Encoding'' \<mapsto> [''gzip'']]"
  let ?resp = "\<lparr>StatusCode = 200, RespHeader = Map.empty, RespBody = Inr ''hello'',
        ContentLength = 5\<rparr>"
  have d: "serveMux demoLib [''/health'', ''/''] ?r = Dispatched ''/''"
    by (rule demoMux_root)
  have l: "\<not> 500 <s lookupCount Map.empty (RemoteAddr ?r) + 1"
    by (simp add: lookupCount_def word_sless_alt)
  have g: "redisGet (redis demoWorld) ''active_proxy'' = Inr (''https://'' @ Host ?r)"
    by (simp add: demoWorld_def demoStore_def redisGet_def demoRequest_def)
  have b: "ReqBody ?r = Inr ''ping''"
    by (simp add: demoRequest_def)
  have e: "\<not> enableDetection ?W" by simp
  have a: "Contains (Header_Get (ReqHeader ?r) ''Accept-Encoding'') ''gzip''"
    by (simp add: demoRequest_def Header_Get_def HasPrefix_def)
  have hr: "headerRules ?W = []" by (simp add: demoWorker_def)
  have q: "\<not> queueEnabled ?W" by (simp add: demoWorker_def)
  have t: "URLHost (target ?W) \<noteq> []" by (simp add: demoWorker_def)
  have tw: "target ?W = target demoWorker" by simp
  have k: "backend demoWorld (originalDirector demoLib (target ?W) ?r) = Inr ?resp"
    by (simp add: demoWorld_def)
  have rb: "RespBody ?resp = Inr ''hello''" by simp
  have z: "gzip demoLib (gzip demoLib ''hello'')
             = [CHR 0x1F, CHR 0x8B, CHR 0x1F, CHR 0x8B] @ ''hello''"
    by (simp add: demoLib_def)
  from gzip_applied_twice [OF d l g b e a hr q t k rb] d a z tw
  show ?thesis by simp
qed

subsection \<open>The registry's invariant (C2)\<close>

lemma length_swap: "length (swap i j xs) = length xs"
  by (simp add: swap_def)

lemma mset_swap_list: "i < length xs \<Longrightarrow> j < length xs \<Longrightarrow> mset (swap i j xs) = mset xs"
  unfolding swap_def by (rule mset_swap)

lemma Shuffle_perm:
  "n < length xs \<Longrightarrow> mset (Shuffle draw n xs) = mset xs \<and> length (Shuffle draw n xs) = length xs"
proof (induction n arbitrary: xs)
  case 0
  then show ?case by simp
next
  case (Suc n)
  let ?j = "draw (Suc n) mod (Suc n + 1)"
  have "?j < Suc n + 1" by simp
  then have j: "?j < length xs"
    using Suc.prems by linarith
  have "n < length (swap (Suc n) ?j xs)"
    using Suc.prems by (simp add: length_swap)
  from Suc.IH [OF this] show ?case
    using Suc.prems j by (simp add: length_swap mset_swap_list)
qed

lemma Shuffle_Nil: "Shuffle draw 0 [] = []"
  by simp

lemma Shuffle_list: "mset (Shuffle draw (length xs - 1) xs) = mset xs"
proof (cases xs)
  case Nil
  then show ?thesis by simp
next
  case (Cons x rest)
  then have "length xs - 1 < length xs" by simp
  then show ?thesis using Shuffle_perm by blast
qed

lemma NewProxyManager_inv: "NewProxyManager L proxyURLs d = Inr pm \<Longrightarrow> registry_inv pm"
  by (auto simp: NewProxyManager_def registry_inv_def Let_def split: list.splits)

lemma switchProxy_result:
  assumes "switchProxy L draw st pm = Inr (pm', st')"
  shows "mset (proxies pm') = mset (proxies pm)"
    and "currentProxy pm' = proxies pm' ! 0"
    and "registry_inv pm'"
  using assms Shuffle_list [of draw "proxies pm"]
  by (auto simp: switchProxy_def registry_inv_def Let_def split: list.splits option.splits)

text \<open>
  C2: in every state of the registry that \<open>NewProxyManager\<close> builds or \<open>switchProxy\<close>
  returns from, the list of endpoints is not empty and \<open>currentProxy\<close> is one of its
  members; a rotation from such a state permutes the list, sets \<open>currentProxy\<close> to the
  element at position 0, and ends in a state with the invariant again.
  (\<open>NewProxyManager\<close> panics on an empty list of URLs, so no state comes of it.)
\<close>

theorem registry_invariant:
  assumes "reachable L pm"
  shows "registry_inv pm
       \<and> (\<forall>draw st pm' st'. switchProxy L draw st pm = Inr (pm', st') \<longrightarrow>
             mset (proxies pm') = mset (proxies pm)
           \<and> currentProxy pm' = proxies pm' ! 0
           \<and> registry_inv pm')"
proof -
  have "registry_inv pm"
    using assms
  proof (induction rule: reachable.induct)
    case (init proxyURLs d pm)
    then show ?case by (rule NewProxyManager_inv)
  next
    case (step pm draw st pm' st')
    then show ?case by (simp add: switchProxy_result(3))
  qed
  then show ?thesis
    by (simp add: switchProxy_result)
qed

theorem registry_invariant_witness:
  "NewProxyManager demoLib [''https://h:8081'', ''https://h:8082''] ''h'' = Inr demoManager
   \<and> reachable demoLib demoManager
   \<and> registry_inv demoManager
   \<and> switchProxy demoLib (\<lambda>i. 0) demoStore demoManager
       = Inr (demoManager\<lparr>proxies := rev (proxies demoManager),
                           currentProxy := Some \<lparr>URLScheme = ''https'', URLHost = ''h:8082'',
                                                  URLPath = []\<rparr>\<rparr>,
              demoStore\<lparr>kv := [''active_proxy'' \<mapsto> ''https://h:8082''],
                         published := [(''proxy_updates'', ''https://h:8082'')]\<rparr>)
   \<and> registry_inv (demoManager\<lparr>proxies := rev (proxies demoManager),
                           currentProxy := Some \<lparr>URLScheme = ''https'', URLHost = ''h:8082'',
                                                  URLPath = []\<rparr>\<rparr>)"
proof -
  have n: "NewProxyManager demoLib [''https://h:8081'', ''https://h:8082''] ''h''
             = Inr demoManager"
    by (simp add: NewProxyManager_def demoLib_def demoManager_def HasPrefix_def)
  have r: "reachable demoLib demoManager"
    using n by (rule reachable.init)
  have s: "switchProxy demoLib (\<lambda>i. 0) demoStore demoManager
       = Inr (demoManager\<lparr>proxies := rev (proxies demoManager),
                           currentProxy := Some \<lparr>URLScheme = ''https'', URLHost = ''h:8082'',
                                                  URLPath = []\<rparr>\<rparr>,
              demoStore\<lparr>kv := [''active_proxy'' \<mapsto> ''https://h:8082''],
                         published := [(''proxy_updates'', ''https://h:8082'')]\<rparr>)"
    by (simp add: switchProxy_def demoManager_def swap_def UpdateActiveProxy_def redisSet_def
        redisPublish_def demoStore_def demoLib_def)
  from registry_invariant [OF r] have i: "registry_inv demoManager"
    and "registry_inv (demoManager\<lparr>proxies := rev (proxies demoManager),
                           currentProxy := Some \<lparr>URLScheme = ''https'', URLHost = ''h:8082'',
                                                  URLPath = []\<rparr>\<rparr>)"
    using s by blast+
  with n r s show ?thesis by (intro conjI)
qed

end
